theory Spec2Isabelle
  imports Complex_Main "HOL-Library.Word" "HOL-Library.Sublist"
begin

section \<open>Binary frames: validation and PCM decoding\<close>

text \<open>
  The component \<open>VapiCall\<close> of \<open>frontend/components/TwiloCall/page.tsx\<close> receives
  binary WebSocket frames as \<open>ArrayBuffer\<close>s. A buffer is modelled by the list of its
  bytes; \<open>None\<close> stands for a \<open>null\<close> or \<open>undefined\<close> argument.
\<close>

type_synonym byte = "8 word"
type_synonym ArrayBuffer = "byte list"
type_synonym int16 = "16 word"

datatype js_error = RangeError

text \<open>
  \<open>validateAudioData\<close> (lines 44--65). \<open>sampleCount\<close> is the JavaScript quotient
  \<open>data.byteLength / 2\<close>, a division of numbers, hence a \<open>real\<close> here.
\<close>

definition validateAudioData :: "ArrayBuffer option \<Rightarrow> bool" where
  "validateAudioData data =
     (case data of
        None \<Rightarrow> False
      | Some buf \<Rightarrow>
          if length buf = 0 then False
          else if length buf mod 2 \<noteq> 0 then False
          else (let sampleCount = real (length buf) / 2
                in if sampleCount < 128 then False else True))"

text \<open>
  \<open>new Int16Array(arrayBuffer)\<close> (line 159) views the bytes as 16-bit two's complement
  samples, low byte first, and throws a \<open>RangeError\<close> when the byte length is odd.
\<close>

fun Int16Array :: "ArrayBuffer \<Rightarrow> js_error + int16 list" where
  "Int16Array [] = Inr []"
| "Int16Array [b] = Inl RangeError"
| "Int16Array (lo # hi # bs) =
     (case Int16Array bs of
        Inl e \<Rightarrow> Inl e
      | Inr ws \<Rightarrow> Inr (word_cat hi lo # ws))"

text \<open>
  The conversion loop of lines 167--172. Every quotient \<open>n / 32768\<close> of a 16-bit integer
  is a dyadic rational with at most 16 significant bits, so the value stored in the
  \<open>Float32Array\<close> is that rational itself; samples are modelled as \<open>real\<close>.
\<close>

definition pcm_sample_to_float :: "int16 \<Rightarrow> real" where
  "pcm_sample_to_float w = max (- 1) (min 1 (real_of_int (sint w) / 32768))"

primrec pcm_to_float32 :: "int16 list \<Rightarrow> real list" where
  "pcm_to_float32 [] = []"
| "pcm_to_float32 (w # ws) = pcm_sample_to_float w # pcm_to_float32 ws"

definition decode :: "ArrayBuffer \<Rightarrow> js_error + real list" where
  "decode buf =
     (case Int16Array buf of
        Inl e \<Rightarrow> Inl e
      | Inr pcmData \<Rightarrow> Inr (pcm_to_float32 pcmData))"

section \<open>Component state\<close>

text \<open>
  A queued chunk (\<open>interface AudioQueueItem\<close>, lines 4--7): the decoded samples and the
  value of \<open>Date.now()\<close> at arrival, in milliseconds.
\<close>

record AudioQueueItem =
  data :: "real list"
  timestamp :: nat

datatype AudioContextState = Running | Suspended | Closed

record AudioContext =
  ctxState :: AudioContextState
  sampleRate :: nat

text \<open>
  The state of one mounted \<open>VapiCall\<close>: the React state variables (lines 10--14), the
  refs (lines 17--21), and what the component has asked of the browser so far:
  \<^item> \<open>started\<close>: the calls \<open>source.start(playTime)\<close>, oldest first, each with its chunk;
  \<^item> \<open>connects\<close>: the URLs passed to \<open>new WebSocket\<close>, oldest first; a socket is named
    by its position in this list;
  \<^item> \<open>closes\<close>: the calls \<open>ws.close(code, reason)\<close> with the socket they were made on;
  \<^item> \<open>timers\<close>: the pending \<open>setTimeout\<close> callbacks, each with its handle and the time
    (milliseconds) from which the browser may run it; \<open>nextTimer\<close> is the next handle;
  \<^item> \<open>now\<close>: the wall clock in milliseconds (\<open>Date.now()\<close>);
  \<^item> \<open>effectWs\<close>: the value of \<open>ws\<close> in the render whose effect of lines 291--295 is the
    one installed, that is, the \<open>ws\<close> that the installed clean-up will see.
  The only timer callback of the component is the reconnect callback of line 220, so a
  pending timer needs no code attached.
\<close>

record VapiCall =
  callStatus :: string
  listenStatus :: string
  ws :: "nat option"
  isPlaying :: bool
  audioContextRef :: "AudioContext option"
  audioQueueRef :: "AudioQueueItem list"
  nextPlayTimeRef :: real
  reconnectTimeoutRef :: "nat option"
  wsUrlRef :: string
  started :: "(AudioQueueItem \<times> real) list"
  connects :: "string list"
  closes :: "(nat \<times> nat \<times> string) list"
  timers :: "(nat \<times> nat) list"
  nextTimer :: nat
  now :: nat
  effectWs :: "nat option"

text \<open>The component as first rendered (lines 10--21); timer handles are positive.\<close>

definition initial :: VapiCall where
  "initial =
     \<lparr> callStatus = ''Idle'', listenStatus = ''Not listening'', ws = None,
       isPlaying = False, audioContextRef = None, audioQueueRef = [],
       nextPlayTimeRef = 0, reconnectTimeoutRef = None, wsUrlRef = [],
       started = [], connects = [], closes = [], timers = [], nextTimer = 1, now = 0,
       effectWs = None \<rparr>"

section \<open>Playback scheduler\<close>

text \<open>\<open>xs.slice(-n)\<close>: the last \<open>n\<close> elements, all of them when there are fewer.\<close>

definition slice_last :: "nat \<Rightarrow> 'a list \<Rightarrow> 'a list" where
  "slice_last n xs = drop (length xs - n) xs"

text \<open>\<open>audioBuffer.duration\<close> of the buffer created at line 94: frames over sample rate.\<close>

definition duration :: "AudioContext \<Rightarrow> AudioQueueItem \<Rightarrow> real" where
  "duration ctx item = real (length (data item)) / real (sampleRate ctx)"

text \<open>
  The \<open>while\<close> loop of \<open>processAudioQueue\<close> (lines 77--119). \<open>currentTime\<close> is the value
  read once at line 74, \<open>ctx\<close> the context bound at line 73. \<open>throws item\<close> says that one
  of the Web Audio calls of lines 94--104 throws for this chunk; the exception is caught
  at line 115 before anything has been written, and the loop goes on.
\<close>

function drain ::
  "real \<Rightarrow> (AudioQueueItem \<Rightarrow> bool) \<Rightarrow> AudioContext \<Rightarrow> VapiCall \<Rightarrow> VapiCall" where
  "drain currentTime throws ctx s =
     (case audioQueueRef s of
        [] \<Rightarrow> s
      | item # rest \<Rightarrow>
          (let s1 = s\<lparr>audioQueueRef := rest\<rparr>
           in if length (data item) = 0 then drain currentTime throws ctx s1
              else if length (data item) < 128 then drain currentTime throws ctx s1
              else if throws item then drain currentTime throws ctx s1
              else
                (let playTime = max currentTime (nextPlayTimeRef s1);
                     s2 = s1\<lparr>started := started s1 @ [(item, playTime)],
                             nextPlayTimeRef := playTime + duration ctx item\<rparr>;
                     s3 = (if length (audioQueueRef s2) > 50
                           then s2\<lparr>audioQueueRef := slice_last 25 (audioQueueRef s2)\<rparr>
                           else s2)
                 in drain currentTime throws ctx s3)))"
  by pat_completeness auto
termination
  by (relation "measure (\<lambda>(currentTime, throws, ctx, s). length (audioQueueRef s))")
     (auto simp: slice_last_def)

declare drain.simps [simp del]

definition processAudioQueue ::
  "real \<Rightarrow> (AudioQueueItem \<Rightarrow> bool) \<Rightarrow> VapiCall \<Rightarrow> VapiCall" where
  "processAudioQueue currentTime throws s =
     (case audioContextRef s of
        None \<Rightarrow> s
      | Some ctx \<Rightarrow>
          if length (audioQueueRef s) = 0 then s
          else drain currentTime throws ctx s)"

text \<open>The \<open>push\<close> of lines 181--184.\<close>

definition enqueue :: "AudioQueueItem \<Rightarrow> VapiCall \<Rightarrow> VapiCall" where
  "enqueue item s = s\<lparr>audioQueueRef := audioQueueRef s @ [item]\<rparr>"

section \<open>Timers and sockets\<close>

text \<open>
  \<open>setTimeout(callback, delay)\<close> returns a fresh handle and makes the callback pending
  until \<open>delay\<close> milliseconds have passed; \<open>clearTimeout(handle)\<close> removes it.
\<close>

definition setTimeout :: "nat \<Rightarrow> VapiCall \<Rightarrow> nat \<times> VapiCall" where
  "setTimeout delay s =
     (nextTimer s,
      s\<lparr>timers := timers s @ [(nextTimer s, now s + delay)], nextTimer := Suc (nextTimer s)\<rparr>)"

definition clearTimeout :: "nat \<Rightarrow> VapiCall \<Rightarrow> VapiCall" where
  "clearTimeout h s = s\<lparr>timers := filter (\<lambda>(h', due). h' \<noteq> h) (timers s)\<rparr>"

text \<open>
  \<open>connectWebSocket\<close> (lines 123--232), the part that runs at once: it stores the URL,
  constructs the socket and calls \<open>setWs\<close>. \<open>rejects url\<close> is the message of the error
  that \<open>new WebSocket(url)\<close> throws, if it throws; the second component of the result
  is that message, the exception leaving the function after line 124 has run. The
  handlers installed on the socket are the functions \<open>onopen\<close>, \<open>onmessage\<close>,
  \<open>onclose\<close> and \<open>onerror\<close> below.
\<close>

definition connectWebSocket ::
  "(string \<Rightarrow> string option) \<Rightarrow> string \<Rightarrow> VapiCall \<Rightarrow> VapiCall \<times> string option" where
  "connectWebSocket rejects listenUrl s =
     (let s1 = s\<lparr>wsUrlRef := listenUrl, connects := connects s @ [listenUrl]\<rparr>
      in case rejects listenUrl of
           Some msg \<Rightarrow> (s1, Some msg)
         | None \<Rightarrow> (s1\<lparr>ws := Some (length (connects s))\<rparr>, None))"

text \<open>
  \<open>initAudioContext\<close> (lines 24--41) is asynchronous: when the new context is
  suspended it waits at line 32 for \<open>resume()\<close>, and other handlers run before it goes
  on. \<open>initAudioContext\<close> below is the part up to that point; its second result says
  whether the function is waiting. What the browser does is an argument: the
  constructor throws, or it yields a context in some state, and \<open>currentTime\<close> reads a
  value at line 35.
\<close>

datatype context_outcome = ConstructorThrows | Constructed AudioContextState real

definition initAudioContext :: "context_outcome \<Rightarrow> VapiCall \<Rightarrow> VapiCall \<times> bool" where
  "initAudioContext outcome s =
     (if (case audioContextRef s of None \<Rightarrow> False | Some ctx \<Rightarrow> ctxState ctx = Running)
      then (s, False)
      else
        (case outcome of
           ConstructorThrows \<Rightarrow> (s\<lparr>listenStatus := ''Audio Error''\<rparr>, False)
         | Constructed st t \<Rightarrow>
             (let s1 = s\<lparr>audioContextRef := Some \<lparr>ctxState = st, sampleRate = 16000\<rparr>\<rparr>
              in if st = Suspended then (s1, True)
                 else (s1\<lparr>nextPlayTimeRef := t\<rparr>, False))))"

text \<open>
  The rest of \<open>initAudioContext\<close>, once \<open>resume()\<close> has settled. It rejects, and the
  \<open>catch\<close> of line 37 runs; or it resolves, and line 35 reads \<open>currentTime\<close> from
  whatever \<open>audioContextRef\<close> holds by then, which throws into the same \<open>catch\<close> when the
  ref has been emptied meanwhile. The flag says whether the ref still holds the context
  that was resumed (the one that is running now).
\<close>

datatype resume_outcome = ResumeRejects | ResumeResolves bool real

definition initAudioContext_resumed :: "resume_outcome \<Rightarrow> VapiCall \<Rightarrow> VapiCall" where
  "initAudioContext_resumed outcome s =
     (case outcome of
        ResumeRejects \<Rightarrow> s\<lparr>listenStatus := ''Audio Error''\<rparr>
      | ResumeResolves same t \<Rightarrow>
          (case audioContextRef s of
             None \<Rightarrow> s\<lparr>listenStatus := ''Audio Error''\<rparr>
           | Some ctx \<Rightarrow>
               (if same then s\<lparr>audioContextRef := Some (ctx\<lparr>ctxState := Running\<rparr>)\<rparr> else s)
               \<lparr>nextPlayTimeRef := t\<rparr>))"

text \<open>
  \<open>stopListening\<close> (lines 262--288). The callback is built by
  \<open>useCallback(\<dots>, [ws])\<close>: the \<open>ws\<close> it tests at line 270 is the value of the state
  variable in the render that built the callback, which is the first argument here.
\<close>

definition stopListening :: "nat option \<Rightarrow> VapiCall \<Rightarrow> VapiCall" where
  "stopListening ws_seen s =
     (let s1 = (case reconnectTimeoutRef s of
                  None \<Rightarrow> s
                | Some h \<Rightarrow> (clearTimeout h s)\<lparr>reconnectTimeoutRef := None\<rparr>);
          s2 = (case ws_seen of
                  None \<Rightarrow> s1
                | Some sock \<Rightarrow>
                    s1\<lparr>closes := closes s1 @ [(sock, 1000, ''User stopped listening'')],
                       ws := None\<rparr>);
          s3 = s2\<lparr>audioQueueRef := []\<rparr>;
          s4 = (case audioContextRef s3 of
                  None \<Rightarrow> s3
                | Some ctx \<Rightarrow>
                    if ctxState ctx \<noteq> Closed then s3\<lparr>audioContextRef := None\<rparr> else s3)
      in s4\<lparr>listenStatus := ''Stopped'', isPlaying := False, callStatus := ''Idle'',
             wsUrlRef := []\<rparr>)"

section \<open>Socket handlers\<close>

text \<open>
  \<open>socket.onopen\<close> (lines 129--140). The handler waits at line 132 for
  \<open>initAudioContext\<close>. When that function does not wait itself, the handler goes on
  before any other handler can run; when it waits for \<open>resume()\<close>, the handler stops
  here, and \<open>onopen_resumed\<close> is the rest of it, run when \<open>resume()\<close> has settled.
  \<open>onopen_rest\<close> is lines 133--139.
\<close>

definition onopen_rest :: "VapiCall \<Rightarrow> VapiCall" where
  "onopen_rest s =
     (let s1 = s\<lparr>isPlaying := True\<rparr>
      in case reconnectTimeoutRef s1 of
           None \<Rightarrow> s1
         | Some h \<Rightarrow> (clearTimeout h s1)\<lparr>reconnectTimeoutRef := None\<rparr>)"

definition onopen :: "context_outcome \<Rightarrow> VapiCall \<Rightarrow> VapiCall" where
  "onopen outcome s =
     (let (s1, waiting) = initAudioContext outcome (s\<lparr>listenStatus := ''Listening...''\<rparr>)
      in if waiting then s1 else onopen_rest s1)"

definition onopen_resumed :: "resume_outcome \<Rightarrow> VapiCall \<Rightarrow> VapiCall" where
  "onopen_resumed outcome s = onopen_rest (initAudioContext_resumed outcome s)"

text \<open>
  A message is an \<open>ArrayBuffer\<close> or a string. Of a string, the handler uses only what
  \<open>JSON.parse\<close> makes of it: no value (it throws, or the value has no property
  \<open>type\<close> to read), or a value whose \<open>type\<close> is a string or is something else.
\<close>

datatype text_frame = NotJSON | Parsed "string option"

datatype frame = Binary ArrayBuffer | Text text_frame

text \<open>
  \<open>socket.onmessage\<close> (lines 142--207). \<open>ws_seen\<close> is the \<open>ws\<close> of the \<open>stopListening\<close>
  that the handler calls at line 198; \<open>currentTime\<close> and \<open>throws\<close> are as in \<open>drain\<close>.
\<close>

definition onmessage ::
  "nat option \<Rightarrow> real \<Rightarrow> (AudioQueueItem \<Rightarrow> bool) \<Rightarrow> frame \<Rightarrow> VapiCall \<Rightarrow> VapiCall" where
  "onmessage ws_seen currentTime throws evt s =
     (if audioContextRef s = None then s
      else
        (case evt of
           Binary arrayBuffer \<Rightarrow>
             if \<not> validateAudioData (Some arrayBuffer) then s
             else if length arrayBuffer = 0 then s
             else
               (case Int16Array arrayBuffer of
                  Inl e \<Rightarrow> s
                | Inr pcmData \<Rightarrow>
                    if length pcmData = 0 then s
                    else
                      (let float32Data = pcm_to_float32 pcmData
                       in if length float32Data = 0 then s
                          else processAudioQueue currentTime throws
                                 (enqueue \<lparr>data = float32Data, timestamp = now s\<rparr> s)))
         | Text NotJSON \<Rightarrow> s
         | Text (Parsed ty) \<Rightarrow>
             if ty = Some ''call-ended''
             then stopListening ws_seen (s\<lparr>callStatus := ''Call ended''\<rparr>)
             else s))"

text \<open>
  Which \<open>ws\<close> the installed handler sees. \<open>connectWebSocket\<close> is wrapped in
  \<open>useCallback\<close> with the dependencies \<open>initAudioContext\<close> and \<open>processAudioQueue\<close>
  (line 232), both built with an empty dependency list (lines 41 and 120); React
  therefore hands out the function of the first render in every later render. The
  \<open>onmessage\<close> handler it installs calls the \<open>stopListening\<close> of that first render,
  built while the state variable \<open>ws\<close> had its initial value \<open>null\<close> (line 13).
\<close>

definition socket_onmessage ::
  "real \<Rightarrow> (AudioQueueItem \<Rightarrow> bool) \<Rightarrow> frame \<Rightarrow> VapiCall \<Rightarrow> VapiCall" where
  "socket_onmessage = onmessage None"

text \<open>\<open>socket.onclose\<close> (lines 209--223) and \<open>socket.onerror\<close> (lines 225--229).\<close>

definition onclose :: "nat \<Rightarrow> VapiCall \<Rightarrow> VapiCall" where
  "onclose code s =
     (let s1 = s\<lparr>listenStatus := ''Connection closed'', isPlaying := False\<rparr>
      in if code \<noteq> 1000 \<and> code \<noteq> 1001 \<and> wsUrlRef s1 \<noteq> []
         then (let (h, s2) = setTimeout 2000 (s1\<lparr>listenStatus := ''Reconnecting...''\<rparr>)
               in s2\<lparr>reconnectTimeoutRef := Some h\<rparr>)
         else s1)"

definition onerror :: "VapiCall \<Rightarrow> VapiCall" where
  "onerror s = s\<lparr>listenStatus := ''Connection error'', isPlaying := False\<rparr>"

text \<open>
  The browser runs the pending timer \<open>h\<close>, if it is pending and due: the callback of
  line 220 connects to the URL that \<open>wsUrlRef\<close> holds at that moment. An exception of
  the constructor ends the callback.
\<close>

definition timerFires :: "(string \<Rightarrow> string option) \<Rightarrow> nat \<Rightarrow> VapiCall \<Rightarrow> VapiCall" where
  "timerFires rejects h s =
     (case map_of (timers s) h of
        None \<Rightarrow> s
      | Some due \<Rightarrow>
          if due \<le> now s
          then fst (connectWebSocket rejects (wsUrlRef s) (clearTimeout h s))
          else s)"

definition elapse :: "nat \<Rightarrow> VapiCall \<Rightarrow> VapiCall" where
  "elapse ms s = s\<lparr>now := now s + ms\<rparr>"

section \<open>Call origination\<close>

text \<open>
  The answer of \<open>fetch\<close> as \<open>startCall\<close> (lines 234--260) uses it: the request fails
  with an error message, or there is a response with \<open>res.ok\<close>, \<open>res.status\<close> and the
  outcome of \<open>res.json()\<close>, an error message or an object of which the fields
  \<open>listenUrl\<close>, \<open>callId\<close> and \<open>error\<close> are read; \<open>None\<close> is a field that is absent
  or \<open>null\<close>.
\<close>

record response_body =
  listenUrl :: "string option"
  callId :: "string option"
  errorField :: "string option"

datatype fetch_outcome = FetchRejects string | Response bool nat "string + response_body"

fun decimal :: "nat \<Rightarrow> string" where
  "decimal n =
     (if n < 10 then [char_of (48 + n)]
      else decimal (n div 10) @ [char_of (48 + n mod 10)])"

declare decimal.simps [simp del]

definition startCall ::
  "(string \<Rightarrow> string option) \<Rightarrow> fetch_outcome \<Rightarrow> VapiCall \<Rightarrow> VapiCall" where
  "startCall rejects outcome s =
     (let s1 = s\<lparr>callStatus := ''Starting call...''\<rparr>;
          failed = (\<lambda>s' msg. s'\<lparr>callStatus := ''Call failed: '' @ msg\<rparr>)
      in case outcome of
           FetchRejects msg \<Rightarrow> failed s1 msg
         | Response ok status body \<Rightarrow>
             if \<not> ok
             then (case body of
                     Inl msg \<Rightarrow> failed s1 msg
                   | Inr errorData \<Rightarrow>
                       (case errorField errorData of
                          None \<Rightarrow> failed s1 (''HTTP '' @ decimal status)
                        | Some e \<Rightarrow>
                            if e \<noteq> [] then failed s1 e
                            else failed s1 (''HTTP '' @ decimal status)))
             else (case body of
                     Inl msg \<Rightarrow> failed s1 msg
                   | Inr b \<Rightarrow>
                       (case listenUrl b of
                          None \<Rightarrow> failed s1 ''Listen URL not received''
                        | Some url \<Rightarrow>
                            if url = [] then failed s1 ''Listen URL not received''
                            else
                              (case connectWebSocket rejects url s1 of
                                 (s2, Some msg) \<Rightarrow> failed s2 msg
                               | (s2, None) \<Rightarrow>
                                   s2\<lparr>callStatus := ''Call in progress...''\<rparr>))))"

section \<open>Page visibility\<close>

text \<open>
  \<open>handleVisibilityChange\<close> (lines 299--305); \<open>playing\<close> is the \<open>isPlaying\<close> of the
  render that installed the listener.
\<close>

definition handleVisibilityChange :: "bool \<Rightarrow> bool \<Rightarrow> VapiCall \<Rightarrow> VapiCall" where
  "handleVisibilityChange hidden playing s =
     (case audioContextRef s of
        None \<Rightarrow> s
      | Some ctx \<Rightarrow>
          if hidden then s\<lparr>audioContextRef := Some (ctx\<lparr>ctxState := Suspended\<rparr>)\<rparr>
          else if playing then s\<lparr>audioContextRef := Some (ctx\<lparr>ctxState := Running\<rparr>)\<rparr>
          else s)"

section \<open>Re-rendering\<close>

text \<open>
  After a handler has run, React renders the component again when a state variable has
  changed. \<open>stopListening\<close> is built by \<open>useCallback(\<dots>, [ws])\<close> (line 288), so a render
  with a new value of \<open>ws\<close> yields a new \<open>stopListening\<close>, and the effect of lines
  291--295, which depends on it, is replaced: React first runs the clean-up of the
  effect installed so far, which calls the \<open>stopListening\<close> of that earlier render, with
  the earlier \<open>ws\<close>. When that call itself changes \<open>ws\<close> (line 272 sets it to \<open>null\<close>),
  a second render follows in the same way; after it \<open>ws\<close> is \<open>null\<close> and nothing changes
  any more. React does this shortly after the handler has returned; here it is done
  before the next handler runs.
\<close>

definition rerender :: "VapiCall \<Rightarrow> VapiCall" where
  "rerender s =
     (if ws s = effectWs s then s
      else
        (let s1 = (stopListening (effectWs s) s)\<lparr>effectWs := ws s\<rparr>
         in if ws s1 = effectWs s1 then s1
            else (stopListening (effectWs s1) s1)\<lparr>effectWs := ws s1\<rparr>))"

section \<open>Runs of the component\<close>

text \<open>
  Everything that can happen to a mounted component, with what the browser contributes
  to each handler; every handler is followed by the re-rendering it causes.
  \<open>StopListening\<close> stands for every call of a \<open>stopListening\<close> callback from outside the
  socket handlers and the re-rendering (the End Call button, the clean-up at unmount),
  with the \<open>ws\<close> that callback has seen. Events are not tied to a particular socket,
  and any order of events is a run: the runs of this model include every sequence of
  handler calls that a browser can produce.
\<close>

datatype event =
    SocketOpen context_outcome
  | OpenResumed resume_outcome
  | SocketMessage "nat option" real "AudioQueueItem \<Rightarrow> bool" frame
  | SocketClose nat
  | SocketError
  | StopListening "nat option"
  | StartCall "string \<Rightarrow> string option" fetch_outcome
  | TimerFires "string \<Rightarrow> string option" nat
  | Elapse nat
  | VisibilityChange bool bool

fun handle :: "VapiCall \<Rightarrow> event \<Rightarrow> VapiCall" where
  "handle s (SocketOpen outcome) = onopen outcome s"
| "handle s (OpenResumed outcome) = onopen_resumed outcome s"
| "handle s (SocketMessage ws_seen currentTime throws evt) =
     onmessage ws_seen currentTime throws evt s"
| "handle s (SocketClose code) = onclose code s"
| "handle s SocketError = onerror s"
| "handle s (StopListening ws_seen) = stopListening ws_seen s"
| "handle s (StartCall rejects outcome) = startCall rejects outcome s"
| "handle s (TimerFires rejects h) = timerFires rejects h s"
| "handle s (Elapse ms) = elapse ms s"
| "handle s (VisibilityChange hidden playing) = handleVisibilityChange hidden playing s"

definition step :: "VapiCall \<Rightarrow> event \<Rightarrow> VapiCall" where
  "step s e = rerender (handle s e)"

definition run :: "VapiCall \<Rightarrow> event list \<Rightarrow> VapiCall" where
  "run s evs = foldl step s evs"

section \<open>Properties of the scheduler\<close>


lemma drain_Nil: "audioQueueRef s = [] \<Longrightarrow> drain t th ctx s = s"
  by (subst drain.simps) simp

lemma drain_skip:
  "audioQueueRef s = x # rest \<Longrightarrow> length (data x) < 128 \<or> th x \<Longrightarrow>
   drain t th ctx s = drain t th ctx (s\<lparr>audioQueueRef := rest\<rparr>)"
  by (subst drain.simps) (auto simp: Let_def)

lemma drain_schedule:
  "audioQueueRef s = x # rest \<Longrightarrow> 128 \<le> length (data x) \<Longrightarrow> \<not> th x \<Longrightarrow>
   drain t th ctx s =
     drain t th ctx
       (s\<lparr>audioQueueRef := (if 50 < length rest then slice_last 25 rest else rest),
          nextPlayTimeRef := max t (nextPlayTimeRef s) + duration ctx x,
          started := started s @ [(x, max t (nextPlayTimeRef s))]\<rparr>)"
  by (subst drain.simps) (auto simp: Let_def intro!: arg_cong [where f = "drain t th ctx"])

lemma drain_queue_empty: "audioQueueRef (drain t th ctx s) = []"
proof (induction "length (audioQueueRef s)" arbitrary: s rule: less_induct)
  case less
  show ?case
  proof (cases "audioQueueRef s")
    case Nil
    then show ?thesis by (simp add: drain_Nil)
  next
    case (Cons x rest)
    show ?thesis
    proof (cases "length (data x) < 128 \<or> th x")
      case True
      have "audioQueueRef (drain t th ctx (s\<lparr>audioQueueRef := rest\<rparr>)) = []"
        by (rule less) (simp add: Cons)
      then show ?thesis using drain_skip [of s x rest th t ctx] Cons True by simp
    next
      case False
      then have a: "128 \<le> length (data x)" and b: "\<not> th x" by auto
      show ?thesis
        by (subst drain_schedule [where th = th, OF Cons a b], rule less)
           (simp add: Cons slice_last_def)
    qed
  qed
qed





lemma processAudioQueue_queue_empty:
  "audioContextRef s \<noteq> None \<Longrightarrow> audioQueueRef (processAudioQueue t th s) = []"
  by (auto simp: processAudioQueue_def drain_queue_empty)

lemma onmessage_queue_empty:
  "audioQueueRef s = [] \<Longrightarrow> audioQueueRef (onmessage w t th evt s) = []"
  by (auto simp: onmessage_def stopListening_def clearTimeout_def enqueue_def Let_def
        processAudioQueue_queue_empty split: frame.splits text_frame.splits sum.splits option.splits)

lemma handle_queue_empty:
  assumes "audioQueueRef s = []"
  shows "audioQueueRef (handle s e) = []"
proof (cases e)
  case (SocketOpen outcome)
  then show ?thesis using assms
    by (auto simp: onopen_def onopen_rest_def initAudioContext_def clearTimeout_def Let_def
          split: option.splits context_outcome.splits)
next
  case (OpenResumed outcome)
  then show ?thesis using assms
    by (auto simp: onopen_resumed_def onopen_rest_def initAudioContext_resumed_def
          clearTimeout_def Let_def split: option.splits resume_outcome.splits)
next
  case (SocketMessage w t th evt)
  then show ?thesis using assms by (simp add: onmessage_queue_empty)
next
  case (SocketClose code)
  then show ?thesis using assms by (auto simp: onclose_def setTimeout_def Let_def)
next
  case SocketError
  then show ?thesis using assms by (simp add: onerror_def)
next
  case (StopListening w)
  then show ?thesis using assms
    by (auto simp: stopListening_def clearTimeout_def Let_def split: option.splits)
next
  case (StartCall rejects outcome)
  then show ?thesis using assms
    by (auto simp: startCall_def connectWebSocket_def Let_def
          split: fetch_outcome.splits sum.splits option.splits prod.splits)
next
  case (TimerFires rejects h)
  then show ?thesis using assms
    by (auto simp: timerFires_def connectWebSocket_def clearTimeout_def Let_def
          split: option.splits)
next
  case (Elapse ms)
  then show ?thesis using assms by (simp add: elapse_def)
next
  case (VisibilityChange hidden playing)
  then show ?thesis using assms by (auto simp: handleVisibilityChange_def split: option.splits)
qed

lemma rerender_queue_empty: "audioQueueRef s = [] \<Longrightarrow> audioQueueRef (rerender s) = []"
  by (auto simp: rerender_def Let_def stopListening_def clearTimeout_def split: option.splits)

lemma step_queue_empty: "audioQueueRef s = [] \<Longrightarrow> audioQueueRef (step s e) = []"
  by (simp add: step_def rerender_queue_empty handle_queue_empty)

lemma run_queue_empty: "audioQueueRef s = [] \<Longrightarrow> audioQueueRef (run s evs) = []"
  unfolding run_def by (induction evs arbitrary: s) (auto simp: step_queue_empty)




section \<open>Properties of validation and decoding\<close>

lemma Int16Array_even:
  "even (length buf) \<Longrightarrow>
   \<exists>pcm. Int16Array buf = Inr pcm \<and> length pcm = length buf div 2
     \<and> (\<forall>i<length pcm. pcm ! i = word_cat (buf ! (2 * i + 1)) (buf ! (2 * i)))"
proof (induction buf rule: Int16Array.induct)
  case 1
  then show ?case by simp
next
  case (2 b)
  then show ?case by simp
next
  case (3 lo hi bs)
  then obtain pcm where p: "Int16Array bs = Inr pcm" "length pcm = length bs div 2"
    "\<forall>i<length pcm. pcm ! i = word_cat (bs ! (2 * i + 1)) (bs ! (2 * i))"
    by auto
  have "\<forall>i<length (word_cat hi lo # pcm).
          (word_cat hi lo # pcm) ! i = (word_cat ((lo # hi # bs) ! (2 * i + 1)) ((lo # hi # bs) ! (2 * i)) :: int16)"
  proof (intro allI impI)
    fix i assume "i < length (word_cat hi lo # pcm)"
    then show "(word_cat hi lo # pcm) ! i = (word_cat ((lo # hi # bs) ! (2 * i + 1)) ((lo # hi # bs) ! (2 * i)) :: int16)"
      using p(3) by (cases i) auto
  qed
  then show ?case using p(1,2) by simp
qed

lemma Int16Array_odd: "odd (length buf) \<Longrightarrow> Int16Array buf = Inl RangeError"
  by (induction buf rule: Int16Array.induct) (auto split: sum.splits)

lemma pcm_to_float32_length: "length (pcm_to_float32 pcm) = length pcm"
  by (induction pcm) auto

lemma pcm_to_float32_nth: "i < length pcm \<Longrightarrow> pcm_to_float32 pcm ! i = pcm_sample_to_float (pcm ! i)"
  by (induction pcm arbitrary: i) (auto simp: nth_Cons split: nat.splits)

lemma validate_even: "validateAudioData (Some buf) \<Longrightarrow> even (length buf)"
  by (auto simp: validateAudioData_def Let_def split: if_splits)

section \<open>Properties of timers and sockets\<close>





lemma map_of_filter_fst:
  "map_of (filter (\<lambda>(h', due). h' \<noteq> h) xs) h = None"
  by (induction xs) auto

lemma onclose_abnormal:
  assumes "code \<noteq> 1000" and "code \<noteq> 1001" and "wsUrlRef s \<noteq> []"
  shows "timers (onclose code s) = timers s @ [(nextTimer s, now s + 2000)]"
    and "reconnectTimeoutRef (onclose code s) = Some (nextTimer s)"
    and "connects (onclose code s) = connects s"
    and "wsUrlRef (onclose code s) = wsUrlRef s"
    and "now (onclose code s) = now s"
  using assms by (simp_all add: onclose_def setTimeout_def Let_def)


lemma timerFires_not_pending: "map_of (timers s) h = None \<Longrightarrow> timerFires rejects h s = s"
  by (simp add: timerFires_def)

lemma timerFires_early:
  "map_of (timers s) h = Some due \<Longrightarrow> now s < due \<Longrightarrow> timerFires rejects h s = s"
  by (simp add: timerFires_def)

lemma timerFires_due:
  assumes "map_of (timers s) h = Some due" and "due \<le> now s"
  shows "connects (timerFires rejects h s) = connects s @ [wsUrlRef s]"
    and "map_of (timers (timerFires rejects h s)) h = None"
  using assms
  by (auto simp: timerFires_def connectWebSocket_def clearTimeout_def Let_def map_of_filter_fst
        split: option.splits)





lemma call_ended_with_current_ws:
  assumes "audioContextRef s \<noteq> None"
  shows "closes (onmessage (Some sock) t throws (Text (Parsed (Some ''call-ended''))) s) =
           closes s @ [(sock, 1000, ''User stopped listening'')]
       \<and> ws (onmessage (Some sock) t throws (Text (Parsed (Some ''call-ended''))) s) = None"
  using assms
  by (auto simp: onmessage_def stopListening_def clearTimeout_def Let_def split: option.splits)

section \<open>Properties of runs\<close>







lemma started_call:
  "run initial
     [StartCall (\<lambda>url. None)
        (Response True 200
           (Inr \<lparr>listenUrl = Some ''wss://host/listen'', callId = None, errorField = None\<rparr>)),
      SocketOpen (Constructed Running 0)] =
   initial\<lparr>callStatus := ''Idle'', listenStatus := ''Listening...'', ws := Some 0,
           isPlaying := True,
           audioContextRef := Some \<lparr>ctxState = Running, sampleRate = 16000\<rparr>,
           connects := [''wss://host/listen''], effectWs := Some 0\<rparr>"
  by (simp add: run_def step_def rerender_def startCall_def connectWebSocket_def onopen_def
        onopen_rest_def initAudioContext_def stopListening_def initial_def)

lemma two_calls_then_failed_connect:
  "run initial
     [StartCall (\<lambda>url. None)
        (Response True 200
           (Inr \<lparr>listenUrl = Some ''wss://host/a'', callId = None, errorField = None\<rparr>)),
      StopListening (Some 0),
      StartCall (\<lambda>url. None)
        (Response True 200
           (Inr \<lparr>listenUrl = Some ''wss://host/b'', callId = None, errorField = None\<rparr>)),
      StopListening (Some 1),
      StartCall (\<lambda>url. Some ''SyntaxError'')
        (Response True 200
           (Inr \<lparr>listenUrl = Some ''wss://host/c#x'', callId = None, errorField = None\<rparr>))] =
   initial\<lparr>callStatus := ''Call failed: SyntaxError'', listenStatus := ''Stopped'',
           wsUrlRef := ''wss://host/c#x'',
           connects := [''wss://host/a'', ''wss://host/b'', ''wss://host/c#x''],
           closes := [(0, 1000, ''User stopped listening''), (0, 1000, ''User stopped listening''),
                      (1, 1000, ''User stopped listening''), (1, 1000, ''User stopped listening'')]\<rparr>"
  by (simp add: run_def step_def rerender_def startCall_def connectWebSocket_def
        stopListening_def initial_def)


section \<open>The claims\<close>

subsection \<open>Claim C1\<close>


subsection \<open>Claim C2\<close>




subsection \<open>Claim C3\<close>

text \<open>
  Claim C3. Every frame that \<open>validateAudioData\<close> accepts, and more generally every
  frame of even byte length, decodes without error to \<open>byteLength / 2\<close> samples; sample
  \<open>i\<close> is the 16-bit little-endian integer at bytes \<open>2i\<close> and \<open>2i + 1\<close>, divided by 32768
  and clamped to \<open>[-1, 1]\<close>, so it lies in \<open>[-1, 1]\<close>. The four bytes \<open>00 40 00 C0\<close> hold
  the integers 16384 and -16384 and decode to 0.5 and -0.5.
\<close>

theorem decode_correct:
  "(validateAudioData (Some buf) \<or> even (length buf) \<longrightarrow>
      (\<exists>pcm ys. Int16Array buf = Inr pcm \<and> decode buf = Inr ys
         \<and> length ys = length buf div 2
         \<and> (\<forall>i<length ys.
               pcm ! i = word_cat (buf ! (2 * i + 1)) (buf ! (2 * i))
             \<and> ys ! i = max (- 1) (min 1 (real_of_int (sint (pcm ! i)) / 32768))
             \<and> - 1 \<le> ys ! i \<and> ys ! i \<le> 1)))
   \<and> map_sum id (map sint) (Int16Array [0x00, 0x40, 0x00, 0xC0]) = Inr [16384, - 16384]
   \<and> decode [0x00, 0x40, 0x00, 0xC0] = Inr [1 / 2, - 1 / 2]"
proof (intro conjI impI)
  assume "validateAudioData (Some buf) \<or> even (length buf)"
  then have "even (length buf)" using validate_even by blast
  then obtain pcm where p: "Int16Array buf = Inr pcm" "length pcm = length buf div 2"
    "\<forall>i<length pcm. pcm ! i = word_cat (buf ! (2 * i + 1)) (buf ! (2 * i))"
    using Int16Array_even by blast
  show "\<exists>pcm ys. Int16Array buf = Inr pcm \<and> decode buf = Inr ys
         \<and> length ys = length buf div 2
         \<and> (\<forall>i<length ys.
               pcm ! i = word_cat (buf ! (2 * i + 1)) (buf ! (2 * i))
             \<and> ys ! i = max (- 1) (min 1 (real_of_int (sint (pcm ! i)) / 32768))
             \<and> - 1 \<le> ys ! i \<and> ys ! i \<le> 1)"
    using p
    by (intro exI [of _ pcm] exI [of _ "pcm_to_float32 pcm"])
       (simp add: decode_def pcm_to_float32_length pcm_to_float32_nth pcm_sample_to_float_def)
next
  show "map_sum id (map sint) (Int16Array [0x00, 0x40, 0x00, 0xC0]) = Inr [16384, - 16384]"
    by (simp add: word_cat_eq push_bit_eq_mult)
next
  show "decode [0x00, 0x40, 0x00, 0xC0] = Inr [1 / 2, - 1 / 2]"
    by (simp add: decode_def pcm_sample_to_float_def word_cat_eq push_bit_eq_mult)
qed

theorem decode_correct_witness:
  "validateAudioData (Some (replicate 256 0))
   \<and> (\<exists>ys. decode (replicate 256 0) = Inr ys \<and> length ys = 128
          \<and> (\<forall>i<length ys. - 1 \<le> ys ! i \<and> ys ! i \<le> 1))"
proof -
  have v: "validateAudioData (Some (replicate 256 (0 :: byte)))"
    by (simp add: validateAudioData_def)
  have "validateAudioData (Some (replicate 256 (0 :: byte))) \<or> even (length (replicate 256 (0 :: byte)))
        \<longrightarrow> (\<exists>pcm ys. Int16Array (replicate 256 0) = Inr pcm \<and> decode (replicate 256 0) = Inr ys
         \<and> length ys = length (replicate 256 (0 :: byte)) div 2
         \<and> (\<forall>i<length ys.
               pcm ! i = word_cat (replicate 256 (0 :: byte) ! (2 * i + 1)) (replicate 256 (0 :: byte) ! (2 * i))
             \<and> ys ! i = max (- 1) (min 1 (real_of_int (sint (pcm ! i)) / 32768))
             \<and> - 1 \<le> ys ! i \<and> ys ! i \<le> 1))"
    using decode_correct [of "replicate 256 0"] by (rule conjunct1)
  with v obtain ys where "decode (replicate 256 0) = Inr ys"
    "length ys = length (replicate 256 (0 :: byte)) div 2"
    "\<forall>i<length ys. - 1 \<le> ys ! i \<and> ys ! i \<le> 1"
    by blast
  with v show ?thesis by simp
qed

subsection \<open>Claim C4\<close>

text \<open>
  Claim C4. \<open>validateAudioData\<close> is a total function to \<open>bool\<close> (it has no failing
  branch), and it answers \<open>false\<close> exactly when the buffer is null, or empty, or of odd
  byte length, or holds fewer than 128 samples (\<open>byteLength / 2 < 128\<close>).
\<close>

theorem validateAudioData_false_iff:
  "(\<not> validateAudioData d) =
     (d = None \<or> (\<exists>buf. d = Some buf \<and>
        (length buf = 0 \<or> length buf mod 2 \<noteq> 0 \<or> real (length buf) / 2 < 128)))"
  by (auto simp: validateAudioData_def Let_def split: option.splits)

theorem validateAudioData_false_iff_witness:
  "\<not> validateAudioData (Some (replicate 255 0)) \<and> \<not> validateAudioData (Some [])
   \<and> \<not> validateAudioData None \<and> \<not> validateAudioData (Some (replicate 254 0))
   \<and> validateAudioData (Some (replicate 256 0))"
  using validateAudioData_false_iff [of "Some (replicate 255 0)"]
        validateAudioData_false_iff [of "Some []"]
        validateAudioData_false_iff [of "None"]
        validateAudioData_false_iff [of "Some (replicate 254 0)"]
        validateAudioData_false_iff [of "Some (replicate 256 0)"]
  by simp

subsection \<open>Claim C5\<close>

text \<open>
  Claim C5 does not hold of the code, in two ways. First, a successful start of a call
  ends with \<open>setWs\<close>, the component is rendered again, and the clean-up that this
  triggers empties \<open>wsUrlRef\<close>: when the socket of that call then closes with code 1006,
  no endpoint is left and no reconnect is scheduled. Second, where an endpoint is
  left (the constructor of the socket threw, so that \<open>ws\<close> did not change), \<open>onclose\<close>
  overwrites \<open>reconnectTimeoutRef\<close> without clearing the timer it held (line 219), and
  \<open>stopListening\<close> cancels only the timer in the ref (lines 264--267). In the run below
  two earlier sockets close with code 1006, one second apart; the stop that follows
  cancels timer 2; timer 1 is still pending and, when its two seconds have passed,
  makes a connection attempt after the stop. Handler by handler the code does schedule
  one timer of 2000 ms per close and run it once, see \<open>onclose_abnormal\<close> and
  \<open>timerFires_due\<close>.
\<close>

theorem orphan_reconnect_after_stop:
  "wsUrlRef
     (run initial
        [StartCall (\<lambda>url. None)
           (Response True 200
              (Inr \<lparr>listenUrl = Some ''wss://host/a'', callId = None, errorField = None\<rparr>))])
     = []
   \<and> timers
     (run initial
        [StartCall (\<lambda>url. None)
           (Response True 200
              (Inr \<lparr>listenUrl = Some ''wss://host/a'', callId = None, errorField = None\<rparr>)),
         SocketClose 1006]) = []
   \<and> timers
     (run initial
        [StartCall (\<lambda>url. None)
           (Response True 200
              (Inr \<lparr>listenUrl = Some ''wss://host/a'', callId = None, errorField = None\<rparr>)),
         StopListening (Some 0),
         StartCall (\<lambda>url. None)
           (Response True 200
              (Inr \<lparr>listenUrl = Some ''wss://host/b'', callId = None, errorField = None\<rparr>)),
         StopListening (Some 1),
         StartCall (\<lambda>url. Some ''SyntaxError'')
           (Response True 200
              (Inr \<lparr>listenUrl = Some ''wss://host/c#x'', callId = None, errorField = None\<rparr>)),
         SocketClose 1006, Elapse 1000, SocketClose 1006,
         StopListening None, Elapse 1000]) = [(1, 2000)]
   \<and> connects
     (run initial
        [StartCall (\<lambda>url. None)
           (Response True 200
              (Inr \<lparr>listenUrl = Some ''wss://host/a'', callId = None, errorField = None\<rparr>)),
         StopListening (Some 0),
         StartCall (\<lambda>url. None)
           (Response True 200
              (Inr \<lparr>listenUrl = Some ''wss://host/b'', callId = None, errorField = None\<rparr>)),
         StopListening (Some 1),
         StartCall (\<lambda>url. Some ''SyntaxError'')
           (Response True 200
              (Inr \<lparr>listenUrl = Some ''wss://host/c#x'', callId = None, errorField = None\<rparr>)),
         SocketClose 1006, Elapse 1000, SocketClose 1006,
         StopListening None, Elapse 1000,
         TimerFires (\<lambda>url. Some ''SyntaxError'') 1])
     = [''wss://host/a'', ''wss://host/b'', ''wss://host/c#x'', []]"
proof -
  let ?a = "StartCall (\<lambda>url. None)
           (Response True 200
              (Inr \<lparr>listenUrl = Some ''wss://host/a'', callId = None, errorField = None\<rparr>))"
  let ?pre = "[?a, StopListening (Some 0),
      StartCall (\<lambda>url. None)
        (Response True 200
           (Inr \<lparr>listenUrl = Some ''wss://host/b'', callId = None, errorField = None\<rparr>)),
      StopListening (Some 1),
      StartCall (\<lambda>url. Some ''SyntaxError'')
        (Response True 200
           (Inr \<lparr>listenUrl = Some ''wss://host/c#x'', callId = None, errorField = None\<rparr>))]"
  have 1: "wsUrlRef (run initial [?a]) = []"
    by (simp add: run_def step_def rerender_def startCall_def connectWebSocket_def
          stopListening_def initial_def)
  have 2: "timers (run initial [?a, SocketClose 1006]) = []"
    by (simp add: run_def step_def rerender_def startCall_def connectWebSocket_def
          stopListening_def onclose_def initial_def)
  have r: "run initial (?pre @ evs) = run (run initial ?pre) evs" for evs
    by (simp add: run_def)
  have 3: "timers (run initial
              (?pre @ [SocketClose 1006, Elapse 1000, SocketClose 1006,
                       StopListening None, Elapse 1000])) = [(1, 2000)]"
    unfolding r two_calls_then_failed_connect
    by (simp add: run_def step_def rerender_def onclose_def setTimeout_def elapse_def
          stopListening_def clearTimeout_def initial_def)
  have 4: "connects (run initial
              (?pre @ [SocketClose 1006, Elapse 1000, SocketClose 1006,
                       StopListening None, Elapse 1000,
                       TimerFires (\<lambda>url. Some ''SyntaxError'') 1])) =
             [''wss://host/a'', ''wss://host/b'', ''wss://host/c#x'', []]"
    unfolding r two_calls_then_failed_connect
    by (simp add: run_def step_def rerender_def onclose_def setTimeout_def elapse_def
          stopListening_def clearTimeout_def timerFires_def connectWebSocket_def initial_def)
  from 1 2 3 4 show ?thesis by simp
qed

subsection \<open>Claim C6\<close>

text \<open>
  Claim C6. When the response is successful (\<open>res.ok\<close>) and its \<open>listenUrl\<close> is missing or
  the empty string, \<open>startCall\<close> leaves the component as it was except for the call
  status, which becomes \<open>Call failed: Listen URL not received\<close>; no socket is
  constructed and \<open>ws\<close> is unchanged.
\<close>

theorem startCall_without_listenUrl:
  assumes "listenUrl body = None \<or> listenUrl body = Some []"
  shows "startCall rejects (Response True status (Inr body)) s =
           s\<lparr>callStatus := ''Call failed: Listen URL not received''\<rparr>
       \<and> connects (startCall rejects (Response True status (Inr body)) s) = connects s
       \<and> ws (startCall rejects (Response True status (Inr body)) s) = ws s"
  using assms by (auto simp: startCall_def)

text \<open>
  Claim C6 for the response \<open>{ listenUrl: "", callId: "c1" }\<close> on the freshly mounted
  component.
\<close>

theorem startCall_without_listenUrl_witness:
  "startCall (\<lambda>url. None)
     (Response True 200 (Inr \<lparr>listenUrl = Some [], callId = Some ''c1'', errorField = None\<rparr>))
     initial =
   initial\<lparr>callStatus := ''Call failed: Listen URL not received''\<rparr>
   \<and> connects (startCall (\<lambda>url. None)
     (Response True 200 (Inr \<lparr>listenUrl = Some [], callId = Some ''c1'', errorField = None\<rparr>))
     initial) = []"
  using startCall_without_listenUrl
    [of "\<lparr>listenUrl = Some [], callId = Some ''c1'', errorField = None\<rparr>" "\<lambda>url. None" 200 initial]
  by (simp add: initial_def)

subsection \<open>Claim C7\<close>

text \<open>
  Claim C7 does not hold of the code. When the frame \<open>{"type":"call-ended"}\<close> arrives
  with the audio context in place, the installed handler sets the call status to
  \<open>Call ended\<close> and runs \<open>stopListening\<close>, which flushes the queue and sets the status to
  \<open>Idle\<close>; but the \<open>ws\<close> this \<open>stopListening\<close> sees is \<open>null\<close>, so line 271 is not
  reached: \<open>close(1000, \<dots>)\<close> is not called on the socket and \<open>ws\<close> keeps the socket.
  With the current value of \<open>ws\<close>, as the End Call button has it, the socket would be
  closed (lemma \<open>call_ended_with_current_ws\<close>).
\<close>

theorem call_ended_socket_stays_open:
  assumes "audioContextRef s \<noteq> None"
  shows "socket_onmessage t throws (Text (Parsed (Some ''call-ended''))) s =
           stopListening None (s\<lparr>callStatus := ''Call ended''\<rparr>)
       \<and> audioQueueRef (socket_onmessage t throws (Text (Parsed (Some ''call-ended''))) s) = []
       \<and> callStatus (socket_onmessage t throws (Text (Parsed (Some ''call-ended''))) s) = ''Idle''
       \<and> closes (socket_onmessage t throws (Text (Parsed (Some ''call-ended''))) s) = closes s
       \<and> ws (socket_onmessage t throws (Text (Parsed (Some ''call-ended''))) s) = ws s"
  using assms
  by (auto simp: socket_onmessage_def onmessage_def stopListening_def clearTimeout_def Let_def
        split: option.splits)

text \<open>
  Claim C7 after a call has been started and its socket has opened: the frame leaves
  socket 0 in \<open>ws\<close> and no \<open>close\<close> has been called.
\<close>

theorem call_ended_socket_stays_open_witness:
  "ws (run initial
        [StartCall (\<lambda>url. None)
           (Response True 200
              (Inr \<lparr>listenUrl = Some ''wss://host/listen'', callId = None, errorField = None\<rparr>)),
         SocketOpen (Constructed Running 0)]) = Some 0
   \<and> ws (socket_onmessage 1 (\<lambda>item. False) (Text (Parsed (Some ''call-ended'')))
       (run initial
        [StartCall (\<lambda>url. None)
           (Response True 200
              (Inr \<lparr>listenUrl = Some ''wss://host/listen'', callId = None, errorField = None\<rparr>)),
         SocketOpen (Constructed Running 0)])) = Some 0
   \<and> closes (socket_onmessage 1 (\<lambda>item. False) (Text (Parsed (Some ''call-ended'')))
       (run initial
        [StartCall (\<lambda>url. None)
           (Response True 200
              (Inr \<lparr>listenUrl = Some ''wss://host/listen'', callId = None, errorField = None\<rparr>)),
         SocketOpen (Constructed Running 0)])) = []"
proof -
  let ?s = "run initial
        [StartCall (\<lambda>url. None)
           (Response True 200
              (Inr \<lparr>listenUrl = Some ''wss://host/listen'', callId = None, errorField = None\<rparr>)),
         SocketOpen (Constructed Running 0)]"
  have c: "audioContextRef ?s \<noteq> None" unfolding started_call by simp
  have w: "ws ?s = Some 0" and cl: "closes ?s = []"
    unfolding started_call by (simp_all add: initial_def)
  from call_ended_socket_stays_open [OF c, of 1 "\<lambda>item. False"]
  have "closes (socket_onmessage 1 (\<lambda>item. False) (Text (Parsed (Some ''call-ended''))) ?s) = closes ?s"
    and "ws (socket_onmessage 1 (\<lambda>item. False) (Text (Parsed (Some ''call-ended''))) ?s) = ws ?s"
    by blast+
  then show ?thesis unfolding w cl by simp
qed

subsection \<open>Claim C8\<close>



subsection \<open>Claim C9\<close>

text \<open>
  Claim C9. With an audio context in place, \<open>processAudioQueue\<close> returns with an empty
  queue, whatever it skipped, failed on or dropped; the loop itself always ends with an
  empty queue. Since a chunk is only ever pushed inside \<open>onmessage\<close>, right before
  \<open>processAudioQueue\<close> and with a context in place, the queue is empty after every
  handler in every run of the component.
\<close>

theorem queue_empty_after_drain:
  "(audioContextRef s \<noteq> None \<longrightarrow> audioQueueRef (processAudioQueue t throws s) = [])
   \<and> audioQueueRef (drain t throws ctx s) = []
   \<and> audioQueueRef (run initial evs) = []"
  by (simp add: processAudioQueue_queue_empty drain_queue_empty run_queue_empty initial_def)

theorem queue_empty_after_drain_witness:
  "audioContextRef
     (initial\<lparr>audioContextRef := Some \<lparr>ctxState = Running, sampleRate = 16000\<rparr>,
              audioQueueRef := [\<lparr>data = [], timestamp = 0\<rparr>,
                                \<lparr>data = replicate 128 0, timestamp = 1\<rparr>]\<rparr>) \<noteq> None
   \<and> audioQueueRef
       (processAudioQueue 0 (\<lambda>item. False)
          (initial\<lparr>audioContextRef := Some \<lparr>ctxState = Running, sampleRate = 16000\<rparr>,
                   audioQueueRef := [\<lparr>data = [], timestamp = 0\<rparr>,
                                     \<lparr>data = replicate 128 0, timestamp = 1\<rparr>]\<rparr>)) = []"
  using queue_empty_after_drain
    [of "initial\<lparr>audioContextRef := Some \<lparr>ctxState = Running, sampleRate = 16000\<rparr>,
                  audioQueueRef := [\<lparr>data = [], timestamp = 0\<rparr>,
                                    \<lparr>data = replicate 128 0, timestamp = 1\<rparr>]\<rparr>"
        0 "\<lambda>item. False"]
  by simp

subsection \<open>Claim C10\<close>



end
